theory Spec2Isabelle
  imports Main
begin

section \<open>Values, documents and errors\<close>

text \<open>
  The values a document can hold. Python's \<open>bool\<close> is a subtype of \<open>int\<close>
  (\<open>True == 1\<close>), so a boolean is a \<open>PInt\<close>; floating point values are left out.
\<close>

datatype pyval = PInt int | PStr string | PNone | PList "pyval list"

text \<open>
  A document is a Python \<open>dict\<close> with string keys. Equality of two dicts does not
  depend on the order of their keys, which is the equality of maps.
\<close>

type_synonym document = "string \<rightharpoonup> pyval"

text \<open>The exceptions the source raises or catches.\<close>

datatype error = ValueError | KeyError | TypeError | IndexError | AttributeError

section \<open>The storage backend\<close>

text \<open>
  What a backend can hand to the facade: the mapping from table names to document lists,
  or a value that is no mapping (a list of documents is the only such value the facade
  itself can write, through \<open>_write(values, '')\<close>).
\<close>

datatype snapshot = Tables "string \<rightharpoonup> document list" | Docs "document list"

text \<open>
  Modelled from the spec: \<open>tinydb.storages\<close> is not under src/. The backend exposes
  \<open>read() -> Mapping | fails(DecodeError)\<close> and \<open>write(Mapping)\<close>, which replaces the
  prior content. The decode failure is the \<open>ValueError\<close> that \<open>TinyDB._read\<close> catches.
  Every \<open>read()\<close> decodes afresh: the value it returns is not shared with the backend.
\<close>

datatype storage = Undecodable | Holds snapshot

definition storage_read :: "storage \<Rightarrow> error + snapshot" where
  "storage_read s = (case s of Undecodable \<Rightarrow> Inl ValueError | Holds v \<Rightarrow> Inr v)"

definition storage_write :: "snapshot \<Rightarrow> storage \<Rightarrow> storage" where
  "storage_write v s = Holds v"

section \<open>The database facade: \<open>TinyDB._read\<close> and \<open>TinyDB._write\<close>\<close>

text \<open>
  \<open>if not table\<close>: the argument is \<open>None\<close> or the empty string.
\<close>

definition not_table :: "string option \<Rightarrow> bool" where
  "not_table table = (case table of None \<Rightarrow> True | Some n \<Rightarrow> n = [])"

text \<open>
  \<open>TinyDB._read(table=None)\<close>. Without a table the backend's value is returned, and the
  empty mapping when the backend raises \<open>ValueError\<close>. With a table, \<open>self._read()[table]\<close>
  raises \<open>KeyError\<close> for an absent name and \<open>TypeError\<close> when the value read is a list
  (a list is not indexed by a string); both are caught and give the empty list.
\<close>

definition db_read :: "storage \<Rightarrow> string option \<Rightarrow> snapshot" where
  "db_read s table =
     (if not_table table then
        (case storage_read s of Inl e \<Rightarrow> Tables Map.empty | Inr v \<Rightarrow> v)
      else
        (case (case storage_read s of Inl e \<Rightarrow> Tables Map.empty | Inr v \<Rightarrow> v) of
           Tables m \<Rightarrow> (case m (case table of Some n \<Rightarrow> n | None \<Rightarrow> []) of
                          Some l \<Rightarrow> Docs l
                        | None \<Rightarrow> Docs [])
         | Docs l \<Rightarrow> Docs []))"

text \<open>
  \<open>TinyDB._write(values, table=None)\<close> for a document list \<open>values\<close>. Without a table
  the list itself is handed to the backend. With a table, \<open>current_data[table] = values\<close>
  raises \<open>TypeError\<close> when the value read is a list; nothing catches it.
\<close>

definition db_write :: "storage \<Rightarrow> document list \<Rightarrow> string option \<Rightarrow> error + storage" where
  "db_write s vals table =
     (if not_table table then Inr (storage_write (Docs vals) s)
      else
        (case db_read s None of
           Tables current_data \<Rightarrow>
             Inr (storage_write
                    (Tables (current_data((case table of Some n \<Rightarrow> n | None \<Rightarrow> []) \<mapsto> vals))) s)
         | Docs l \<Rightarrow> Inl TypeError))"

text \<open>\<open>TinyDB._write(values)\<close> for a mapping \<open>values\<close>, as \<open>purge_all\<close> calls it.\<close>

definition db_write_all :: "storage \<Rightarrow> (string \<rightharpoonup> document list) \<Rightarrow> storage" where
  "db_write_all s vals = storage_write (Tables vals) s"

definition purge_all :: "storage \<Rightarrow> storage" where
  "purge_all s = db_write_all s Map.empty"

section \<open>Tables\<close>

text \<open>
  The keys of \<open>Table._queries_cache\<close>: a condition, or the function \<open>where\<close> of
  \<open>tinydb.queries\<close>, which \<open>search\<close> uses as a key. A condition is equal to another
  condition with the same description and to nothing else, so it is never equal to
  \<open>where\<close>.
\<close>

datatype 'c cache_key = Where | Cond 'c

text \<open>
  A \<open>Table\<close> object: \<open>name\<close>, \<open>_db\<close> (a reference to the parent \<open>TinyDB\<close> object),
  \<open>_queries_cache\<close> and \<open>_last_id\<close>. The operations below take the storage of the
  parent database and return it updated.
\<close>

record 'c table =
  name :: string
  db :: nat
  queries_cache :: "'c cache_key \<rightharpoonup> document list"
  last_id :: pyval

text \<open>\<open>Table._read\<close> and \<open>Table.all\<close>.\<close>

definition table_read :: "'c table \<Rightarrow> storage \<Rightarrow> snapshot" where
  "table_read t s = db_read s (Some (name t))"

definition table_all :: "'c table \<Rightarrow> storage \<Rightarrow> snapshot" where
  "table_all t s = table_read t s"

text \<open>
  \<open>Table.__init__\<close>: \<open>self._read().pop()['_id']\<close>. \<open>pop()\<close> of the empty list raises
  the \<open>IndexError\<close> that is caught; \<open>pop()\<close> of a mapping (the table name is empty)
  raises \<open>TypeError\<close>, and a last document without \<open>'_id'\<close> raises \<open>KeyError\<close>; neither is
  caught.
\<close>

definition table_init :: "string \<Rightarrow> nat \<Rightarrow> storage \<Rightarrow> error + 'c table" where
  "table_init n d s =
     (case db_read s (Some n) of
        Tables m \<Rightarrow> Inl TypeError
      | Docs l \<Rightarrow>
          (if l = [] then
             Inr \<lparr>name = n, db = d, queries_cache = Map.empty, last_id = PInt 0\<rparr>
           else
             (case (last l) ''_id'' of
                None \<Rightarrow> Inl KeyError
              | Some v \<Rightarrow> Inr \<lparr>name = n, db = d, queries_cache = Map.empty, last_id = v\<rparr>)))"

definition clear_query_cache :: "'c table \<Rightarrow> 'c table" where
  "clear_query_cache t = t\<lparr>queries_cache := Map.empty\<rparr>"

text \<open>\<open>Table._write\<close>: the cache is cleared, then the facade writes.\<close>

definition table_write :: "'c table \<Rightarrow> storage \<Rightarrow> document list \<Rightarrow> error + ('c table \<times> storage)" where
  "table_write t s vals =
     (let t' = clear_query_cache t in
      case db_write s vals (Some (name t')) of
        Inl e \<Rightarrow> Inl e
      | Inr s' \<Rightarrow> Inr (t', s'))"

text \<open>
  \<open>Table.insert\<close>. \<open>self._last_id += 1\<close> raises \<open>TypeError\<close> when the counter is no
  integer. The element is the caller's object and is changed in place: the model returns
  it as it is after the call. \<open>data.append\<close> raises \<open>AttributeError\<close> on a mapping.
\<close>

definition table_insert ::
  "'c table \<Rightarrow> storage \<Rightarrow> document \<Rightarrow> error + (document \<times> 'c table \<times> storage)" where
  "table_insert t s element =
     (case last_id t of
        PInt n \<Rightarrow>
          (let next_id = n + 1;
               t1 = t\<lparr>last_id := PInt next_id\<rparr>;
               element' = element(''_id'' \<mapsto> PInt next_id)
           in case table_read t1 s of
                Tables m \<Rightarrow> Inl AttributeError
              | Docs data \<Rightarrow>
                  (case table_write t1 s (data @ [element']) of
                     Inl e \<Rightarrow> Inl e
                   | Inr (t2, s') \<Rightarrow> Inr (element', t2, s')))
      | PStr x \<Rightarrow> Inl TypeError
      | PNone \<Rightarrow> Inl TypeError
      | PList x \<Rightarrow> Inl TypeError)"

text \<open>
  Modelled from the spec: \<open>tinydb.queries\<close> is not under src/. A condition has a pure
  evaluation function from documents to booleans; it is the parameter \<open>ev\<close> of the
  operations that call \<open>cond(e)\<close>. Conditions are compared by their description, which
  is the equality of the type \<open>'c\<close>.

  \<open>Table.search\<close>. The membership test is on \<open>cond\<close>; the entry read and the entry
  written are those of \<open>where\<close>. Iterating over a mapping would call the condition on
  table names, which are no documents: the model gives \<open>TypeError\<close> there.
\<close>

definition table_search ::
  "('c \<Rightarrow> document \<Rightarrow> bool) \<Rightarrow> 'c table \<Rightarrow> storage \<Rightarrow> 'c \<Rightarrow> error + (document list \<times> 'c table)" where
  "table_search ev t s cond =
     (if queries_cache t (Cond cond) \<noteq> None then
        (case queries_cache t Where of
           None \<Rightarrow> Inl KeyError
         | Some elems \<Rightarrow> Inr (elems, t))
      else
        (case table_all t s of
           Tables m \<Rightarrow> Inl TypeError
         | Docs l \<Rightarrow>
             (let elems = filter (ev cond) l
              in Inr (elems, t\<lparr>queries_cache := (queries_cache t)(Where \<mapsto> elems)\<rparr>))))"

text \<open>\<open>Table.remove\<close>: \<open>e not in to_remove\<close> compares documents with \<open>==\<close>.\<close>

definition table_remove ::
  "('c \<Rightarrow> document \<Rightarrow> bool) \<Rightarrow> 'c table \<Rightarrow> storage \<Rightarrow> 'c \<Rightarrow> error + ('c table \<times> storage)" where
  "table_remove ev t s cond =
     (case table_search ev t s cond of
        Inl e \<Rightarrow> Inl e
      | Inr (to_remove, t1) \<Rightarrow>
          (case table_all t1 s of
             Tables m \<Rightarrow> Inl TypeError
           | Docs l \<Rightarrow> table_write t1 s (filter (\<lambda>e. e \<notin> set to_remove) l)))"

definition table_purge :: "'c table \<Rightarrow> storage \<Rightarrow> error + ('c table \<times> storage)" where
  "table_purge t s = table_write t s []"

section \<open>Sequences of table operations\<close>

text \<open>
  A caller's use of one table: the calls it makes, in order. \<open>run_ops\<close> performs them
  and collects, for every \<open>insert\<close>, the \<open>'_id'\<close> entry of the inserted element after
  the call. The first exception ends the run.
\<close>

datatype 'c op = Insert document | Remove 'c | Purge | Search 'c

fun run_ops ::
  "('c \<Rightarrow> document \<Rightarrow> bool) \<Rightarrow> 'c table \<Rightarrow> storage \<Rightarrow> 'c op list
     \<Rightarrow> error + (pyval option list \<times> 'c table \<times> storage)" where
  "run_ops ev t s [] = Inr ([], t, s)"
| "run_ops ev t s (Insert d # ops) =
     (case table_insert t s d of
        Inl e \<Rightarrow> Inl e
      | Inr (d', t', s') \<Rightarrow>
          (case run_ops ev t' s' ops of
             Inl e \<Rightarrow> Inl e
           | Inr (ids, t'', s'') \<Rightarrow> Inr (d' ''_id'' # ids, t'', s'')))"
| "run_ops ev t s (Remove c # ops) =
     (case table_remove ev t s c of
        Inl e \<Rightarrow> Inl e
      | Inr (t', s') \<Rightarrow> run_ops ev t' s' ops)"
| "run_ops ev t s (Purge # ops) =
     (case table_purge t s of
        Inl e \<Rightarrow> Inl e
      | Inr (t', s') \<Rightarrow> run_ops ev t' s' ops)"
| "run_ops ev t s (Search c # ops) =
     (case table_search ev t s c of
        Inl e \<Rightarrow> Inl e
      | Inr (elems, t') \<Rightarrow> run_ops ev t' s ops)"

fun count_inserts :: "'c op list \<Rightarrow> nat" where
  "count_inserts [] = 0"
| "count_inserts (Insert d # ops) = Suc (count_inserts ops)"
| "count_inserts (Remove c # ops) = count_inserts ops"
| "count_inserts (Purge # ops) = count_inserts ops"
| "count_inserts (Search c # ops) = count_inserts ops"

text \<open>The documents a snapshot mapping holds for a table name; none for an absent name.\<close>

definition docs_in :: "(string \<rightharpoonup> document list) \<Rightarrow> string \<Rightarrow> document list" where
  "docs_in m n = (case m n of Some l \<Rightarrow> l | None \<Rightarrow> [])"

text \<open>The integer identifier a document carries, if it carries one.\<close>

definition doc_id :: "document \<Rightarrow> int option" where
  "doc_id d = (case d ''_id'' of Some (PInt i) \<Rightarrow> Some i | Some (PStr x) \<Rightarrow> None
               | Some PNone \<Rightarrow> None | Some (PList x) \<Rightarrow> None | None \<Rightarrow> None)"

section \<open>Database objects and the table registry\<close>

text \<open>
  A \<open>TinyDB\<close> object: \<open>_storage\<close> and \<open>_table\<close> (a reference to its default table, unset
  until \<open>__init__\<close> has created it).
\<close>

record tinydb =
  db_storage :: storage
  db_table :: "nat option"

text \<open>
  The objects of a program: the \<open>TinyDB\<close> objects and the \<open>Table\<close> objects, each list
  indexed by reference, and \<open>TinyDB._table_cache\<close>. The source assigns \<open>_table_cache\<close> in
  the class body, so it is one dictionary of the class \<open>TinyDB\<close>, and \<open>self._table_cache\<close>
  reads that dictionary whatever \<open>self\<close> is.
\<close>

record 'c world =
  table_cache :: "string \<rightharpoonup> nat"
  tables :: "'c table list"
  dbs :: "tinydb list"

definition new_world :: "'c world" where
  "new_world = \<lparr>table_cache = Map.empty, tables = [], dbs = []\<rparr>"

text \<open>\<open>TinyDB.table(self, name)\<close>; \<open>self\<close> is a reference into \<open>dbs\<close>.\<close>

definition tinydb_table :: "'c world \<Rightarrow> nat \<Rightarrow> string \<Rightarrow> error + (nat \<times> 'c world)" where
  "tinydb_table w self n =
     (case table_cache w n of
        Some r \<Rightarrow> Inr (r, w)
      | None \<Rightarrow>
          (case table_init n self (db_storage (dbs w ! self)) of
             Inl e \<Rightarrow> Inl e
           | Inr t \<Rightarrow>
               (let r = length (tables w)
                in Inr (r, w\<lparr>table_cache := (table_cache w)(n \<mapsto> r),
                              tables := tables w @ [t]\<rparr>))))"

text \<open>
  \<open>TinyDB.__init__\<close>: the storage object is created (its initial content is \<open>st\<close>), then
  the default table is looked up.
\<close>

definition tinydb_init :: "'c world \<Rightarrow> storage \<Rightarrow> error + (nat \<times> 'c world)" where
  "tinydb_init w st =
     (let self = length (dbs w);
          w1 = w\<lparr>dbs := dbs w @ [\<lparr>db_storage = st, db_table = None\<rparr>]\<rparr>
      in case tinydb_table w1 self ''_default'' of
           Inl e \<Rightarrow> Inl e
         | Inr (r, w2) \<Rightarrow>
             Inr (self, w2\<lparr>dbs := (dbs w2)[self := (dbs w2 ! self)\<lparr>db_table := Some r\<rparr>]\<rparr>))"

text \<open>
  \<open>db.insert(element)\<close>: \<open>TinyDB.__getattr__\<close> forwards to \<open>self._table\<close>, and the table
  reads and writes through its own \<open>_db\<close>.
\<close>

definition tinydb_insert :: "'c world \<Rightarrow> nat \<Rightarrow> document \<Rightarrow> error + (document \<times> 'c world)" where
  "tinydb_insert w self element =
     (case db_table (dbs w ! self) of
        None \<Rightarrow> Inl AttributeError
      | Some r \<Rightarrow>
          (let t = tables w ! r; owner = db t
           in case table_insert t (db_storage (dbs w ! owner)) element of
                Inl e \<Rightarrow> Inl e
              | Inr (element', t', s') \<Rightarrow>
                  Inr (element',
                       w\<lparr>tables := (tables w)[r := t'],
                         dbs := (dbs w)[owner := (dbs w ! owner)\<lparr>db_storage := s'\<rparr>]\<rparr>)))"

section \<open>Facts about the operations\<close>

text \<open>
  Reads and writes through the facade when the table name is not empty and the backend
  yields a mapping (it holds one, or it cannot be decoded).
\<close>

lemma db_read_name:
  "n \<noteq> [] \<Longrightarrow> db_read s None = Tables m \<Longrightarrow> db_read s (Some n) = Docs (docs_in m n)"
  by (auto simp: db_read_def not_table_def docs_in_def split: sum.splits option.splits)

lemma db_write_name:
  "n \<noteq> [] \<Longrightarrow> db_read s None = Tables m \<Longrightarrow>
     db_write s v (Some n) = Inr (Holds (Tables (m(n \<mapsto> v))))"
  by (simp add: db_write_def not_table_def storage_write_def)

lemma db_read_Holds: "db_read (Holds v) None = v"
  by (simp add: db_read_def not_table_def storage_read_def)

lemma db_read_Undecodable: "db_read Undecodable None = Tables Map.empty"
  by (simp add: db_read_def not_table_def storage_read_def)

lemma docs_in_upd: "docs_in (m(n \<mapsto> v)) n = v"
  by (simp add: docs_in_def)

lemma table_read_ok:
  "name t \<noteq> [] \<Longrightarrow> db_read s None = Tables m \<Longrightarrow> table_read t s = Docs (docs_in m (name t))"
  by (simp add: table_read_def db_read_name)

lemma table_write_ok:
  "name t \<noteq> [] \<Longrightarrow> db_read s None = Tables m \<Longrightarrow>
     table_write t s v = Inr (t\<lparr>queries_cache := Map.empty\<rparr>, Holds (Tables (m(name t \<mapsto> v))))"
  by (simp add: table_write_def clear_query_cache_def db_write_name)

lemma table_insert_ok:
  "name t \<noteq> [] \<Longrightarrow> db_read s None = Tables m \<Longrightarrow> last_id t = PInt k \<Longrightarrow>
     table_insert t s element =
       Inr (element(''_id'' \<mapsto> PInt (k + 1)),
            t\<lparr>queries_cache := Map.empty, last_id := PInt (k + 1)\<rparr>,
            Holds (Tables (m(name t \<mapsto> docs_in m (name t) @ [element(''_id'' \<mapsto> PInt (k + 1))]))))"
  by (simp add: table_insert_def table_read_ok table_write_ok Let_def)

lemma table_search_miss:
  "name t \<noteq> [] \<Longrightarrow> db_read s None = Tables m \<Longrightarrow> queries_cache t (Cond c) = None \<Longrightarrow>
     table_search ev t s c =
       Inr (filter (ev c) (docs_in m (name t)),
            t\<lparr>queries_cache := (queries_cache t)(Where \<mapsto> filter (ev c) (docs_in m (name t)))\<rparr>)"
  by (simp add: table_search_def table_all_def table_read_ok Let_def)

lemma table_remove_ok:
  "name t \<noteq> [] \<Longrightarrow> db_read s None = Tables m \<Longrightarrow> queries_cache t (Cond c) = None \<Longrightarrow>
     table_remove ev t s c =
       Inr (t\<lparr>queries_cache := Map.empty\<rparr>,
            Holds (Tables (m(name t \<mapsto>
              filter (\<lambda>e. e \<notin> set (filter (ev c) (docs_in m (name t)))) (docs_in m (name t))))))"
  by (simp add: table_remove_def table_search_miss table_all_def table_read_ok table_write_ok)

lemma table_purge_ok:
  "name t \<noteq> [] \<Longrightarrow> db_read s None = Tables m \<Longrightarrow>
     table_purge t s = Inr (t\<lparr>queries_cache := Map.empty\<rparr>, Holds (Tables (m(name t \<mapsto> []))))"
  by (simp add: table_purge_def table_write_ok)

text \<open>What a successful \<open>Table._write\<close> leaves behind, whatever the state before.\<close>

lemma table_write_result:
  assumes "table_write t s v = Inr (t', s')"
  shows "t' = t\<lparr>queries_cache := Map.empty\<rparr>" and "table_all t' s' = Docs v"
proof -
  from assms have w: "db_write s v (Some (name t)) = Inr s'" and t': "t' = t\<lparr>queries_cache := Map.empty\<rparr>"
    by (auto simp: table_write_def clear_query_cache_def Let_def split: sum.splits)
  show "t' = t\<lparr>queries_cache := Map.empty\<rparr>" by (rule t')
  show "table_all t' s' = Docs v"
  proof (cases "name t = []")
    case True
    with w have "s' = Holds (Docs v)"
      by (simp add: db_write_def not_table_def storage_write_def)
    with True t' show ?thesis
      by (simp add: table_all_def table_read_def db_read_def not_table_def storage_read_def)
  next
    case False
    with w obtain m where "s' = Holds (Tables (m(name t \<mapsto> v)))"
      by (auto simp: db_write_def not_table_def storage_write_def split: snapshot.splits)
    with False t' show ?thesis
      by (simp add: table_all_def table_read_def db_read_def not_table_def storage_read_def)
  qed
qed

text \<open>A search with an empty cache scans the list that \<open>all()\<close> returns.\<close>

lemma table_search_empty_cache:
  "queries_cache t = Map.empty \<Longrightarrow> table_all t s = Docs docs \<Longrightarrow>
     table_search ev t s c = Inr (filter (ev c) docs, t\<lparr>queries_cache := [Where \<mapsto> filter (ev c) docs]\<rparr>)"
  by (simp add: table_search_def Let_def)

text \<open>\<open>search\<close> never stores an entry under a condition.\<close>

lemma table_search_cond_keys:
  "table_search ev t s c = Inr (r, t') \<Longrightarrow> queries_cache t' (Cond c') = queries_cache t (Cond c')"
  by (auto simp: table_search_def Let_def split: if_splits option.splits snapshot.splits)

lemma table_init_cond_keys:
  "table_init n d s = Inr t \<Longrightarrow> queries_cache t = Map.empty"
  by (auto simp: table_init_def split: snapshot.splits if_splits option.splits)

text \<open>Every successful mutating operation ends in a successful \<open>Table._write\<close>.\<close>

lemma table_insert_write:
  assumes "table_insert t s element = Inr (element', t', s')"
  shows "\<exists>k docs. last_id t = PInt k \<and> element' = element(''_id'' \<mapsto> PInt (k + 1)) \<and>
           table_write (t\<lparr>last_id := PInt (k + 1)\<rparr>) s (docs @ [element']) = Inr (t', s')"
proof -
  from assms obtain k where k: "last_id t = PInt k"
    by (cases "last_id t") (simp_all add: table_insert_def)
  let ?t1 = "t\<lparr>last_id := PInt (k + 1)\<rparr>"
  let ?e = "element(''_id'' \<mapsto> PInt (k + 1))"
  from assms k have b: "(case table_read ?t1 s of
                Tables m \<Rightarrow> Inl AttributeError
              | Docs data \<Rightarrow>
                  (case table_write ?t1 s (data @ [?e]) of
                     Inl e \<Rightarrow> Inl e
                   | Inr (t2, s') \<Rightarrow> Inr (?e, t2, s'))) = Inr (element', t', s')"
    by (simp add: table_insert_def Let_def)
  then obtain docs where d: "table_read ?t1 s = Docs docs"
    by (cases "table_read ?t1 s") simp_all
  from b d have "table_write ?t1 s (docs @ [?e]) = Inr (t', s')" and "element' = ?e"
    by (cases "table_write ?t1 s (docs @ [?e])"; simp; fail)+
  with k show ?thesis by blast
qed

lemma table_remove_write:
  assumes "table_remove ev t s c = Inr (t', s')"
  shows "\<exists>t1 v. table_write t1 s v = Inr (t', s')"
proof (cases "table_search ev t s c")
  case (Inl e)
  with assms show ?thesis by (simp add: table_remove_def)
next
  case (Inr r)
  obtain to_remove t1 where r: "r = (to_remove, t1)" by (cases r)
  show ?thesis
  proof (cases "table_all t1 s")
    case (Tables m)
    with assms Inr r show ?thesis by (simp add: table_remove_def)
  next
    case (Docs l)
    with assms Inr r have "table_write t1 s (filter (\<lambda>e. e \<notin> set to_remove) l) = Inr (t', s')"
      by (simp add: table_remove_def)
    then show ?thesis by blast
  qed
qed

lemma after_table_write:
  assumes "table_write t s v = Inr (t', s')"
  shows "queries_cache t' = Map.empty \<and>
         (\<exists>docs. table_all t' s' = Docs docs \<and>
            (\<forall>c. table_search ev t' s' c =
                   Inr (filter (ev c) docs, t'\<lparr>queries_cache := [Where \<mapsto> filter (ev c) docs]\<rparr>)))"
proof -
  from table_write_result [OF assms]
  have c: "queries_cache t' = Map.empty" and a: "table_all t' s' = Docs v" by simp_all
  from table_search_empty_cache [OF c a] c a show ?thesis by blast
qed

text \<open>The identifiers \<open>k + 1, ..., k + n\<close>, as the \<open>'_id'\<close> entries of inserted elements.\<close>

lemma ids_from_Suc:
  "map (\<lambda>i. Some (PInt (k + int i))) [Suc 0..<Suc (Suc n)]
     = Some (PInt (k + 1)) # map (\<lambda>i. Some (PInt (k + 1 + int i))) [Suc 0..<Suc n]"
proof -
  have "[Suc 0..<Suc (Suc n)] = Suc 0 # map Suc [Suc 0..<Suc n]"
    by (simp add: map_Suc_upt upt_conv_Cons del: upt_Suc)
  then show ?thesis by (simp add: o_def add.assoc del: upt_Suc)
qed

text \<open>
  A run of operations on a table with a name, an integer counter \<open>k\<close> and no cache entry
  under a condition, over a backend that yields a mapping: no operation fails, and the
  inserts are given \<open>k + 1, k + 2, ...\<close> in turn.
\<close>

lemma run_ops_ids:
  "name t \<noteq> [] \<Longrightarrow> db_read s None = Tables m \<Longrightarrow> last_id t = PInt k \<Longrightarrow>
   (\<forall>c. queries_cache t (Cond c) = None) \<Longrightarrow>
     \<exists>t' s'. run_ops ev t s ops =
       Inr (map (\<lambda>i. Some (PInt (k + int i))) [Suc 0..<Suc (count_inserts ops)], t', s')"
proof (induction ops arbitrary: t s m k)
  case Nil
  show ?case by simp
next
  case (Cons x ops)
  show ?case
  proof (cases x)
    case (Insert d)
    let ?e = "d(''_id'' \<mapsto> PInt (k + 1))"
    let ?t1 = "t\<lparr>queries_cache := Map.empty, last_id := PInt (k + 1)\<rparr>"
    let ?m1 = "m(name t \<mapsto> docs_in m (name t) @ [?e])"
    have i: "table_insert t s d = Inr (?e, ?t1, Holds (Tables ?m1))"
      using Cons.prems(1-3) by (rule table_insert_ok)
    have "\<exists>t' s'. run_ops ev ?t1 (Holds (Tables ?m1)) ops =
            Inr (map (\<lambda>i. Some (PInt (k + 1 + int i))) [Suc 0..<Suc (count_inserts ops)], t', s')"
    proof (rule Cons.IH)
      show "name ?t1 \<noteq> []" using Cons.prems(1) by simp
      show "db_read (Holds (Tables ?m1)) None = Tables ?m1" by (rule db_read_Holds)
      show "last_id ?t1 = PInt (k + 1)" by simp
      show "\<forall>c. queries_cache ?t1 (Cond c) = None" by simp
    qed
    then obtain t' s' where
      "run_ops ev ?t1 (Holds (Tables ?m1)) ops =
         Inr (map (\<lambda>i. Some (PInt (k + 1 + int i))) [Suc 0..<Suc (count_inserts ops)], t', s')"
      by blast
    with i Insert have "run_ops ev t s (x # ops) =
        Inr (map (\<lambda>i. Some (PInt (k + int i))) [Suc 0..<Suc (count_inserts (x # ops))], t', s')"
      by (simp add: ids_from_Suc del: upt_Suc)
    then show ?thesis by blast
  next
    case (Remove c)
    let ?t1 = "t\<lparr>queries_cache := Map.empty\<rparr>"
    let ?m1 = "m(name t \<mapsto> filter (\<lambda>e. e \<notin> set (filter (ev c) (docs_in m (name t)))) (docs_in m (name t)))"
    have r: "table_remove ev t s c = Inr (?t1, Holds (Tables ?m1))"
      using Cons.prems(1,2) Cons.prems(4) [rule_format, of c] by (rule table_remove_ok)
    have "\<exists>t' s'. run_ops ev ?t1 (Holds (Tables ?m1)) ops =
            Inr (map (\<lambda>i. Some (PInt (k + int i))) [Suc 0..<Suc (count_inserts ops)], t', s')"
    proof (rule Cons.IH)
      show "name ?t1 \<noteq> []" using Cons.prems(1) by simp
      show "db_read (Holds (Tables ?m1)) None = Tables ?m1" by (rule db_read_Holds)
      show "last_id ?t1 = PInt k" using Cons.prems(3) by simp
      show "\<forall>c. queries_cache ?t1 (Cond c) = None" by simp
    qed
    with r Remove show ?thesis by (simp del: upt_Suc)
  next
    case Purge
    let ?t1 = "t\<lparr>queries_cache := Map.empty\<rparr>"
    let ?m1 = "m(name t \<mapsto> [])"
    have p: "table_purge t s = Inr (?t1, Holds (Tables ?m1))"
      using Cons.prems(1,2) by (rule table_purge_ok)
    have "\<exists>t' s'. run_ops ev ?t1 (Holds (Tables ?m1)) ops =
            Inr (map (\<lambda>i. Some (PInt (k + int i))) [Suc 0..<Suc (count_inserts ops)], t', s')"
    proof (rule Cons.IH)
      show "name ?t1 \<noteq> []" using Cons.prems(1) by simp
      show "db_read (Holds (Tables ?m1)) None = Tables ?m1" by (rule db_read_Holds)
      show "last_id ?t1 = PInt k" using Cons.prems(3) by simp
      show "\<forall>c. queries_cache ?t1 (Cond c) = None" by simp
    qed
    with p Purge show ?thesis by (simp del: upt_Suc)
  next
    case (Search c)
    let ?r = "filter (ev c) (docs_in m (name t))"
    let ?t1 = "t\<lparr>queries_cache := (queries_cache t)(Where \<mapsto> ?r)\<rparr>"
    have q: "table_search ev t s c = Inr (?r, ?t1)"
      using Cons.prems(1,2) Cons.prems(4) [rule_format, of c] by (rule table_search_miss)
    have "\<exists>t' s'. run_ops ev ?t1 s ops =
            Inr (map (\<lambda>i. Some (PInt (k + int i))) [Suc 0..<Suc (count_inserts ops)], t', s')"
    proof (rule Cons.IH)
      show "name ?t1 \<noteq> []" using Cons.prems(1) by simp
      show "db_read s None = Tables m" by (rule Cons.prems(2))
      show "last_id ?t1 = PInt k" using Cons.prems(3) by simp
      show "\<forall>c. queries_cache ?t1 (Cond c) = None" using Cons.prems(4) by simp
    qed
    with q Search show ?thesis by (simp del: upt_Suc)
  qed
qed

lemma table_init_empty:
  "n \<noteq> [] \<Longrightarrow> db_read s None = Tables m \<Longrightarrow> docs_in m n = [] \<Longrightarrow>
     table_init n d s = Inr \<lparr>name = n, db = d, queries_cache = Map.empty, last_id = PInt 0\<rparr>"
  by (simp add: table_init_def db_read_name)

text \<open>The last element of a sorted list is its maximum.\<close>

lemma sorted_last_Max:
  "sorted (xs :: int list) \<Longrightarrow> xs \<noteq> [] \<Longrightarrow> last xs = Max (set xs)"
proof (induction xs)
  case Nil
  then show ?case by simp
next
  case (Cons x xs)
  show ?case
  proof (cases "xs = []")
    case True
    then show ?thesis by simp
  next
    case False
    with Cons have l: "last xs = Max (set xs)" by simp
    from False have "last xs \<in> set xs" by simp
    with Cons.prems(1) have "x \<le> last xs" by simp
    with l False show ?thesis by (simp add: max_def)
  qed
qed

lemma doc_id_Some: "doc_id d = Some i \<Longrightarrow> d ''_id'' = Some (PInt i)"
  by (auto simp: doc_id_def split: option.splits pyval.splits)

lemma doc_id_stamp: "doc_id (d(''_id'' \<mapsto> PInt i)) = Some i"
  by (simp add: doc_id_def)

lemma table_init_last:
  "n \<noteq> [] \<Longrightarrow> db_read s None = Tables m \<Longrightarrow> docs_in m n \<noteq> [] \<Longrightarrow>
   last (docs_in m n) ''_id'' = Some v \<Longrightarrow>
     table_init n d s = Inr \<lparr>name = n, db = d, queries_cache = Map.empty, last_id = v\<rparr>"
  by (simp add: table_init_def db_read_name)

text \<open>
  \<open>TinyDB.table\<close> returns the table it returned before for the same name, whichever
  database object asks.
\<close>

lemma tinydb_table_again:
  "tinydb_table w self n = Inr (r, w') \<Longrightarrow> tinydb_table w' self' n = Inr (r, w')"
  by (auto simp: tinydb_table_def Let_def split: option.splits sum.splits)

section \<open>The query cache of \<open>search\<close>\<close>

text \<open>
  C1: the source stores the result of \<open>search(c)\<close> under the key \<open>where\<close>, not under
  \<open>c\<close>. On a table with the documents \<open>{data: 5, _id: 1}\<close> and \<open>{data: 6, _id: 2}\<close>,
  \<open>search(data == 5)\<close> leaves the cache without an entry under the condition; the
  next search, for \<open>data == 6\<close>, scans again and overwrites the one entry.
\<close>

theorem search_stores_under_where:
  "table_search (\<lambda>c d. d ''data'' = Some (PInt c))
     \<lparr>name = ''t'', db = 0, queries_cache = Map.empty :: int cache_key \<rightharpoonup> document list,
      last_id = PInt 2\<rparr>
     (Holds (Tables [''t'' \<mapsto> [[''data'' \<mapsto> PInt 5, ''_id'' \<mapsto> PInt 1],
                                  [''data'' \<mapsto> PInt 6, ''_id'' \<mapsto> PInt 2]]])) 5
   = Inr ([[''data'' \<mapsto> PInt 5, ''_id'' \<mapsto> PInt 1]],
          \<lparr>name = ''t'', db = 0,
           queries_cache = [Where \<mapsto> [[''data'' \<mapsto> PInt 5, ''_id'' \<mapsto> PInt 1]]],
           last_id = PInt 2\<rparr>) \<and>
   [Where \<mapsto> [[''data'' \<mapsto> PInt 5, ''_id'' \<mapsto> PInt 1]]] (Cond (5::int)) = None \<and>
   table_search (\<lambda>c d. d ''data'' = Some (PInt c))
     \<lparr>name = ''t'', db = 0,
      queries_cache = [Where \<mapsto> [[''data'' \<mapsto> PInt 5, ''_id'' \<mapsto> PInt 1]]]
        :: int cache_key \<rightharpoonup> document list,
      last_id = PInt 2\<rparr>
     (Holds (Tables [''t'' \<mapsto> [[''data'' \<mapsto> PInt 5, ''_id'' \<mapsto> PInt 1],
                                  [''data'' \<mapsto> PInt 6, ''_id'' \<mapsto> PInt 2]]])) 6
   = Inr ([[''data'' \<mapsto> PInt 6, ''_id'' \<mapsto> PInt 2]],
          \<lparr>name = ''t'', db = 0,
           queries_cache = [Where \<mapsto> [[''data'' \<mapsto> PInt 6, ''_id'' \<mapsto> PInt 2]]],
           last_id = PInt 2\<rparr>)"
  by (simp add: Let_def table_search_def table_all_def table_read_def db_read_def not_table_def
        storage_read_def)

section \<open>The counter at construction\<close>

text \<open>
  C2, as amended: at construction the counter is seeded with the \<open>'_id'\<close> of the last
  document of the list stored for the table, and with 0 when the table has no documents
  or is absent. When the stored documents carry integer identifiers in ascending order,
  that value is the maximum identifier, and the next insert assigns the maximum plus
  one, which no stored document carries.
\<close>

theorem table_init_seeds_last_id:
  "n \<noteq> [] \<Longrightarrow> db_read s None = Tables m \<Longrightarrow>
     (docs_in m n = [] \<longrightarrow>
        table_init n d s =
          Inr \<lparr>name = n, db = d, queries_cache = Map.empty :: 'c cache_key \<rightharpoonup> document list,
               last_id = PInt 0\<rparr>) \<and>
     (\<forall>v. docs_in m n \<noteq> [] \<and> last (docs_in m n) ''_id'' = Some v \<longrightarrow>
        table_init n d s =
          Inr \<lparr>name = n, db = d, queries_cache = Map.empty :: 'c cache_key \<rightharpoonup> document list,
               last_id = v\<rparr>) \<and>
     (\<forall>ids. ids \<noteq> [] \<and> map doc_id (docs_in m n) = map Some ids \<and> sorted ids \<longrightarrow>
        table_init n d s =
          Inr \<lparr>name = n, db = d, queries_cache = Map.empty :: 'c cache_key \<rightharpoonup> document list,
               last_id = PInt (Max (set ids))\<rparr> \<and>
        (\<forall>element. \<exists>element' t' s'.
           table_insert
             \<lparr>name = n, db = d, queries_cache = Map.empty :: 'c cache_key \<rightharpoonup> document list,
              last_id = PInt (Max (set ids))\<rparr> s element = Inr (element', t', s') \<and>
           doc_id element' = Some (Max (set ids) + 1) \<and>
           doc_id element' \<notin> set (map doc_id (docs_in m n))))"
proof (intro conjI allI impI)
  assume "n \<noteq> []" "db_read s None = Tables m" "docs_in m n = []"
  then show "table_init n d s =
      Inr \<lparr>name = n, db = d, queries_cache = Map.empty :: 'c cache_key \<rightharpoonup> document list,
           last_id = PInt 0\<rparr>"
    by (rule table_init_empty)
next
  fix v
  assume "n \<noteq> []" "db_read s None = Tables m"
    and "docs_in m n \<noteq> [] \<and> last (docs_in m n) ''_id'' = Some v"
  then show "table_init n d s =
      Inr \<lparr>name = n, db = d, queries_cache = Map.empty :: 'c cache_key \<rightharpoonup> document list,
           last_id = v\<rparr>"
    by (simp add: table_init_last)
next
  fix ids :: "int list"
  assume n: "n \<noteq> []" and r: "db_read s None = Tables m"
    and h: "ids \<noteq> [] \<and> map doc_id (docs_in m n) = map Some ids \<and> sorted ids"
  let ?docs = "docs_in m n"
  from h have ne: "?docs \<noteq> []" by auto
  from h have eq: "map doc_id ?docs = map Some ids" and ids: "ids \<noteq> []" by simp_all
  have "doc_id (last ?docs) = last (map doc_id ?docs)"
    by (rule last_map [OF ne, symmetric])
  also have "\<dots> = last (map Some ids)" by (simp only: eq)
  also have "\<dots> = Some (last ids)" by (rule last_map [OF ids])
  finally have "doc_id (last ?docs) = Some (last ids)" .
  with h have "doc_id (last ?docs) = Some (Max (set ids))" by (simp add: sorted_last_Max)
  then have "last ?docs ''_id'' = Some (PInt (Max (set ids)))" by (rule doc_id_Some)
  with n r ne show "table_init n d s =
      Inr \<lparr>name = n, db = d, queries_cache = Map.empty :: 'c cache_key \<rightharpoonup> document list,
           last_id = PInt (Max (set ids))\<rparr>"
    by (rule table_init_last)
next
  fix ids :: "int list" and element :: document
  assume n: "n \<noteq> []" and r: "db_read s None = Tables m"
    and h: "ids \<noteq> [] \<and> map doc_id (docs_in m n) = map Some ids \<and> sorted ids"
  let ?t = "\<lparr>name = n, db = d, queries_cache = Map.empty :: 'c cache_key \<rightharpoonup> document list,
             last_id = PInt (Max (set ids))\<rparr>"
  let ?e = "element(''_id'' \<mapsto> PInt (Max (set ids) + 1))"
  have "name ?t \<noteq> []" using n by simp
  moreover have "last_id ?t = PInt (Max (set ids))" by simp
  ultimately have i: "\<exists>t' s'. table_insert ?t s element = Inr (?e, t', s')"
    using r by (simp add: table_insert_ok del: table.simps)
  have "Max (set ids) + 1 \<notin> set ids"
  proof
    assume "Max (set ids) + 1 \<in> set ids"
    then have "Max (set ids) + 1 \<le> Max (set ids)" by (intro Max_ge) simp_all
    then show False by simp
  qed
  then have "Some (Max (set ids) + 1) \<notin> set (map Some ids)" by auto
  with h have "doc_id ?e \<notin> set (map doc_id (docs_in m n))" by (simp add: doc_id_stamp)
  with i show "\<exists>element' t' s'. table_insert ?t s element = Inr (element', t', s') \<and>
           doc_id element' = Some (Max (set ids) + 1) \<and>
           doc_id element' \<notin> set (map doc_id (docs_in m n))"
    using doc_id_stamp [of element "Max (set ids) + 1"] by blast
qed

theorem table_init_seeds_last_id_witness:
  "table_init ''t'' 0 (Holds (Tables [''t'' \<mapsto> [[''_id'' \<mapsto> PInt 1], [''_id'' \<mapsto> PInt 3]]]))
     = Inr \<lparr>name = ''t'', db = 0, queries_cache = Map.empty :: int cache_key \<rightharpoonup> document list,
            last_id = PInt 3\<rparr> \<and>
   (\<exists>element' t' s'.
      table_insert
        \<lparr>name = ''t'', db = 0, queries_cache = Map.empty :: int cache_key \<rightharpoonup> document list,
         last_id = PInt 3\<rparr>
        (Holds (Tables [''t'' \<mapsto> [[''_id'' \<mapsto> PInt 1], [''_id'' \<mapsto> PInt 3]]]))
        [''data'' \<mapsto> PInt 5] = Inr (element', t', s') \<and>
      doc_id element' = Some 4)"
proof -
  let ?docs = "[[''_id'' \<mapsto> PInt 1], [''_id'' \<mapsto> PInt 3]] :: document list"
  let ?s = "Holds (Tables [''t'' \<mapsto> ?docs])"
  have n: "''t'' \<noteq> []" by simp
  have r: "db_read ?s None = Tables [''t'' \<mapsto> ?docs]" by (rule db_read_Holds)
  have i: "[1, 3] \<noteq> [] \<and> map doc_id (docs_in [''t'' \<mapsto> ?docs] ''t'') = map Some [1, 3] \<and>
           sorted [1, 3 :: int]"
    by (simp add: docs_in_def doc_id_def)
  have m: "Max (set [1, 3 :: int]) = 3" by simp
  from table_init_seeds_last_id [OF n r, of 0, where 'c = int] i
  have "table_init ''t'' 0 ?s =
          Inr \<lparr>name = ''t'', db = 0, queries_cache = Map.empty :: int cache_key \<rightharpoonup> document list,
               last_id = PInt (Max (set [1, 3]))\<rparr> \<and>
        (\<forall>element. \<exists>element' t' s'.
           table_insert
             \<lparr>name = ''t'', db = 0, queries_cache = Map.empty :: int cache_key \<rightharpoonup> document list,
              last_id = PInt (Max (set [1, 3]))\<rparr> ?s element = Inr (element', t', s') \<and>
           doc_id element' = Some (Max (set [1, 3]) + 1) \<and>
           doc_id element' \<notin> set (map doc_id (docs_in [''t'' \<mapsto> ?docs] ''t'')))"
    by blast
  then show ?thesis unfolding m by (simp only: one_add_one numeral_plus_one semiring_norm) blast
qed

text \<open>
  C2 as stated fails for a stored list that is not ordered by identifier: over the
  documents with identifiers 2 and 1, in this order, the counter is seeded with 1, and
  the next insert assigns 2, the identifier of the first stored document.
\<close>

theorem table_init_last_not_max:
  "table_init ''t'' 0 (Holds (Tables [''t'' \<mapsto> [[''_id'' \<mapsto> PInt 2], [''_id'' \<mapsto> PInt 1]]]))
     = Inr \<lparr>name = ''t'', db = 0, queries_cache = Map.empty :: int cache_key \<rightharpoonup> document list,
            last_id = PInt 1\<rparr> \<and>
   table_insert
     \<lparr>name = ''t'', db = 0, queries_cache = Map.empty :: int cache_key \<rightharpoonup> document list,
      last_id = PInt 1\<rparr>
     (Holds (Tables [''t'' \<mapsto> [[''_id'' \<mapsto> PInt 2], [''_id'' \<mapsto> PInt 1]]])) Map.empty
     = Inr ([''_id'' \<mapsto> PInt 2],
            \<lparr>name = ''t'', db = 0, queries_cache = Map.empty, last_id = PInt 2\<rparr>,
            Holds (Tables [''t'' \<mapsto> [[''_id'' \<mapsto> PInt 2], [''_id'' \<mapsto> PInt 1],
                                         [''_id'' \<mapsto> PInt 2]]]))"
proof -
  let ?docs = "[[''_id'' \<mapsto> PInt 2], [''_id'' \<mapsto> PInt 1]] :: document list"
  let ?s = "Holds (Tables [''t'' \<mapsto> ?docs])"
  let ?t = "\<lparr>name = ''t'', db = 0, queries_cache = Map.empty :: int cache_key \<rightharpoonup> document list,
             last_id = PInt 1\<rparr>"
  have r: "db_read ?s None = Tables [''t'' \<mapsto> ?docs]" by (rule db_read_Holds)
  have a: "table_init ''t'' 0 ?s = Inr ?t"
    using table_init_last [of "''t''" ?s "[''t'' \<mapsto> ?docs]" "PInt 1" 0] r
    by (simp add: docs_in_def)
  have b: "table_insert ?t ?s Map.empty
     = Inr ([''_id'' \<mapsto> PInt 2],
            \<lparr>name = ''t'', db = 0, queries_cache = Map.empty, last_id = PInt 2\<rparr>,
            Holds (Tables [''t'' \<mapsto> [[''_id'' \<mapsto> PInt 2], [''_id'' \<mapsto> PInt 1],
                                         [''_id'' \<mapsto> PInt 2]]]))"
    using table_insert_ok [of ?t ?s "[''t'' \<mapsto> ?docs]" 1 Map.empty] r
    by (simp add: docs_in_def)
  from a b show ?thesis by (rule conjI)
qed

section \<open>The table registry\<close>

text \<open>
  C4: \<open>_table_cache\<close> is an attribute of the class, so two database objects share it.
  A first database is created over an empty backend, a second over a backend that holds
  the document \<open>{data: 9, _id: 4}\<close> in its default table. The default table of the second
  database is the table object of the first (reference 0, whose \<open>_db\<close> is the first
  database and whose counter is 0), and an insert through the second database is
  written to the backend of the first.
\<close>

theorem table_cache_shared_between_databases:
  "tinydb_init (new_world :: int world) Undecodable
     = Inr (0, \<lparr>table_cache = [''_default'' \<mapsto> 0],
               tables = [\<lparr>name = ''_default'', db = 0, queries_cache = Map.empty, last_id = PInt 0\<rparr>],
               dbs = [\<lparr>db_storage = Undecodable, db_table = Some 0\<rparr>]\<rparr>) \<and>
   tinydb_init
     \<lparr>table_cache = [''_default'' \<mapsto> 0],
      tables = [\<lparr>name = ''_default'', db = 0,
                 queries_cache = Map.empty :: int cache_key \<rightharpoonup> document list, last_id = PInt 0\<rparr>],
      dbs = [\<lparr>db_storage = Undecodable, db_table = Some 0\<rparr>]\<rparr>
     (Holds (Tables [''_default'' \<mapsto> [[''data'' \<mapsto> PInt 9, ''_id'' \<mapsto> PInt 4]]]))
     = Inr (1, \<lparr>table_cache = [''_default'' \<mapsto> 0],
               tables = [\<lparr>name = ''_default'', db = 0, queries_cache = Map.empty, last_id = PInt 0\<rparr>],
               dbs = [\<lparr>db_storage = Undecodable, db_table = Some 0\<rparr>,
                      \<lparr>db_storage = Holds (Tables [''_default'' \<mapsto>
                                     [[''data'' \<mapsto> PInt 9, ''_id'' \<mapsto> PInt 4]]]),
                       db_table = Some 0\<rparr>]\<rparr>) \<and>
   tinydb_insert
     \<lparr>table_cache = [''_default'' \<mapsto> 0],
      tables = [\<lparr>name = ''_default'', db = 0,
                 queries_cache = Map.empty :: int cache_key \<rightharpoonup> document list, last_id = PInt 0\<rparr>],
      dbs = [\<lparr>db_storage = Undecodable, db_table = Some 0\<rparr>,
             \<lparr>db_storage = Holds (Tables [''_default'' \<mapsto>
                            [[''data'' \<mapsto> PInt 9, ''_id'' \<mapsto> PInt 4]]]),
              db_table = Some 0\<rparr>]\<rparr>
     1 [''data'' \<mapsto> PInt 5]
     = Inr ([''data'' \<mapsto> PInt 5, ''_id'' \<mapsto> PInt 1],
            \<lparr>table_cache = [''_default'' \<mapsto> 0],
             tables = [\<lparr>name = ''_default'', db = 0, queries_cache = Map.empty, last_id = PInt 1\<rparr>],
             dbs = [\<lparr>db_storage = Holds (Tables [''_default'' \<mapsto>
                                   [[''data'' \<mapsto> PInt 5, ''_id'' \<mapsto> PInt 1]]]),
                     db_table = Some 0\<rparr>,
                    \<lparr>db_storage = Holds (Tables [''_default'' \<mapsto>
                                   [[''data'' \<mapsto> PInt 9, ''_id'' \<mapsto> PInt 4]]]),
                     db_table = Some 0\<rparr>]\<rparr>)"
proof -
  have t: "table_init ''_default'' 0 Undecodable
             = Inr \<lparr>name = ''_default'', db = 0,
                    queries_cache = Map.empty :: int cache_key \<rightharpoonup> document list, last_id = PInt 0\<rparr>"
    by (simp add: table_init_def db_read_def not_table_def storage_read_def)
  have i: "table_insert
             \<lparr>name = ''_default'', db = 0,
              queries_cache = Map.empty :: int cache_key \<rightharpoonup> document list, last_id = PInt 0\<rparr>
             Undecodable [''data'' \<mapsto> PInt 5]
           = Inr ([''data'' \<mapsto> PInt 5, ''_id'' \<mapsto> PInt 1],
                  \<lparr>name = ''_default'', db = 0, queries_cache = Map.empty, last_id = PInt 1\<rparr>,
                  Holds (Tables [''_default'' \<mapsto> [[''data'' \<mapsto> PInt 5, ''_id'' \<mapsto> PInt 1]]]))"
    by (simp add: Let_def table_insert_def table_write_def clear_query_cache_def table_read_def
          db_write_def db_read_def not_table_def storage_read_def storage_write_def)
  have a: "tinydb_init (new_world :: int world) Undecodable
     = Inr (0, \<lparr>table_cache = [''_default'' \<mapsto> 0],
               tables = [\<lparr>name = ''_default'', db = 0, queries_cache = Map.empty, last_id = PInt 0\<rparr>],
               dbs = [\<lparr>db_storage = Undecodable, db_table = Some 0\<rparr>]\<rparr>)"
    by (simp add: Let_def tinydb_init_def tinydb_table_def new_world_def t)
  have b: "tinydb_init
     \<lparr>table_cache = [''_default'' \<mapsto> 0],
      tables = [\<lparr>name = ''_default'', db = 0,
                 queries_cache = Map.empty :: int cache_key \<rightharpoonup> document list, last_id = PInt 0\<rparr>],
      dbs = [\<lparr>db_storage = Undecodable, db_table = Some 0\<rparr>]\<rparr>
     (Holds (Tables [''_default'' \<mapsto> [[''data'' \<mapsto> PInt 9, ''_id'' \<mapsto> PInt 4]]]))
     = Inr (1, \<lparr>table_cache = [''_default'' \<mapsto> 0],
               tables = [\<lparr>name = ''_default'', db = 0, queries_cache = Map.empty, last_id = PInt 0\<rparr>],
               dbs = [\<lparr>db_storage = Undecodable, db_table = Some 0\<rparr>,
                      \<lparr>db_storage = Holds (Tables [''_default'' \<mapsto>
                                     [[''data'' \<mapsto> PInt 9, ''_id'' \<mapsto> PInt 4]]]),
                       db_table = Some 0\<rparr>]\<rparr>)"
    by (simp add: Let_def tinydb_init_def tinydb_table_def)
  have c: "tinydb_insert
     \<lparr>table_cache = [''_default'' \<mapsto> 0],
      tables = [\<lparr>name = ''_default'', db = 0,
                 queries_cache = Map.empty :: int cache_key \<rightharpoonup> document list, last_id = PInt 0\<rparr>],
      dbs = [\<lparr>db_storage = Undecodable, db_table = Some 0\<rparr>,
             \<lparr>db_storage = Holds (Tables [''_default'' \<mapsto>
                            [[''data'' \<mapsto> PInt 9, ''_id'' \<mapsto> PInt 4]]]),
              db_table = Some 0\<rparr>]\<rparr>
     1 [''data'' \<mapsto> PInt 5]
     = Inr ([''data'' \<mapsto> PInt 5, ''_id'' \<mapsto> PInt 1],
            \<lparr>table_cache = [''_default'' \<mapsto> 0],
             tables = [\<lparr>name = ''_default'', db = 0, queries_cache = Map.empty, last_id = PInt 1\<rparr>],
             dbs = [\<lparr>db_storage = Holds (Tables [''_default'' \<mapsto>
                                   [[''data'' \<mapsto> PInt 5, ''_id'' \<mapsto> PInt 1]]]),
                     db_table = Some 0\<rparr>,
                    \<lparr>db_storage = Holds (Tables [''_default'' \<mapsto>
                                   [[''data'' \<mapsto> PInt 9, ''_id'' \<mapsto> PInt 4]]]),
                     db_table = Some 0\<rparr>]\<rparr>)"
    by (simp add: Let_def tinydb_insert_def i)
  from a b c show ?thesis by (intro conjI)
qed

section \<open>Cache invalidation\<close>

text \<open>
  C5: every mutating operation clears the query cache in full. \<open>purge\<close>, \<open>insert\<close> (when
  the counter is an integer) and \<open>remove\<close> (when the cache has no entry under the
  condition) succeed on a table with a name over a backend that yields a mapping; and
  after any successful \<open>purge\<close>, \<open>insert\<close> or \<open>remove\<close> the cache is empty, so that
  \<open>search(c)\<close>, for every condition \<open>c\<close>, returns the documents of the current list
  that satisfy \<open>c\<close>.
\<close>

theorem mutation_clears_query_cache:
  "(name t \<noteq> [] \<and> db_read s None = Tables m \<longrightarrow>
      (\<exists>r. table_purge t s = Inr r) \<and>
      (\<forall>k. last_id t = PInt k \<longrightarrow> (\<exists>r. table_insert t s d = Inr r)) \<and>
      (queries_cache t (Cond cond) = None \<longrightarrow> (\<exists>r. table_remove ev t s cond = Inr r))) \<and>
   (table_purge t s = Inr (t', s') \<or> (\<exists>d'. table_insert t s d = Inr (d', t', s')) \<or>
    table_remove ev t s cond = Inr (t', s') \<longrightarrow>
      queries_cache t' = Map.empty \<and>
      (\<exists>docs. table_all t' s' = Docs docs \<and>
         (\<forall>c. table_search ev t' s' c =
                Inr (filter (ev c) docs, t'\<lparr>queries_cache := [Where \<mapsto> filter (ev c) docs]\<rparr>))))"
proof (intro conjI impI)
  assume "name t \<noteq> [] \<and> db_read s None = Tables m"
  then show "\<exists>r. table_purge t s = Inr r"
    by (simp add: table_purge_ok)
next
  assume "name t \<noteq> [] \<and> db_read s None = Tables m"
  then show "\<forall>k. last_id t = PInt k \<longrightarrow> (\<exists>r. table_insert t s d = Inr r)"
    by (simp add: table_insert_ok)
next
  assume "name t \<noteq> [] \<and> db_read s None = Tables m" and "queries_cache t (Cond cond) = None"
  then show "\<exists>r. table_remove ev t s cond = Inr r"
    by (simp add: table_remove_ok)
next
  assume "table_purge t s = Inr (t', s') \<or> (\<exists>d'. table_insert t s d = Inr (d', t', s')) \<or>
          table_remove ev t s cond = Inr (t', s')"
  then consider (purge) "table_purge t s = Inr (t', s')"
    | (insert) d' where "table_insert t s d = Inr (d', t', s')"
    | (remove) "table_remove ev t s cond = Inr (t', s')"
    by blast
  then have "\<exists>t1 v. table_write t1 s v = Inr (t', s')"
  proof cases
    case purge
    then show ?thesis unfolding table_purge_def by blast
  next
    case insert
    from table_insert_write [OF insert] show ?thesis by blast
  next
    case remove
    from table_remove_write [OF remove] show ?thesis .
  qed
  then obtain t1 v where w: "table_write t1 s v = Inr (t', s')" by blast
  from after_table_write [OF w, of ev]
  show "queries_cache t' = Map.empty"
   and "\<exists>docs. table_all t' s' = Docs docs \<and>
         (\<forall>c. table_search ev t' s' c =
                Inr (filter (ev c) docs, t'\<lparr>queries_cache := [Where \<mapsto> filter (ev c) docs]\<rparr>))"
    by simp_all
qed

theorem mutation_clears_query_cache_witness:
  "table_insert
     \<lparr>name = ''t'', db = 0,
      queries_cache = [Where \<mapsto> [[''data'' \<mapsto> PInt 5, ''_id'' \<mapsto> PInt 1]]] :: int cache_key \<rightharpoonup> document list,
      last_id = PInt 1\<rparr>
     (Holds (Tables [''t'' \<mapsto> [[''data'' \<mapsto> PInt 5, ''_id'' \<mapsto> PInt 1]]]))
     [''data'' \<mapsto> PInt 5]
   = Inr ([''data'' \<mapsto> PInt 5, ''_id'' \<mapsto> PInt 2],
          \<lparr>name = ''t'', db = 0, queries_cache = Map.empty, last_id = PInt 2\<rparr>,
          Holds (Tables [''t'' \<mapsto> [[''data'' \<mapsto> PInt 5, ''_id'' \<mapsto> PInt 1],
                                       [''data'' \<mapsto> PInt 5, ''_id'' \<mapsto> PInt 2]]])) \<and>
   table_search (\<lambda>c d. d ''data'' = Some (PInt c))
     \<lparr>name = ''t'', db = 0, queries_cache = Map.empty :: int cache_key \<rightharpoonup> document list,
      last_id = PInt 2\<rparr>
     (Holds (Tables [''t'' \<mapsto> [[''data'' \<mapsto> PInt 5, ''_id'' \<mapsto> PInt 1],
                                  [''data'' \<mapsto> PInt 5, ''_id'' \<mapsto> PInt 2]]])) 5
   = Inr ([[''data'' \<mapsto> PInt 5, ''_id'' \<mapsto> PInt 1], [''data'' \<mapsto> PInt 5, ''_id'' \<mapsto> PInt 2]],
          \<lparr>name = ''t'', db = 0,
           queries_cache = [Where \<mapsto> [[''data'' \<mapsto> PInt 5, ''_id'' \<mapsto> PInt 1],
                                          [''data'' \<mapsto> PInt 5, ''_id'' \<mapsto> PInt 2]]],
           last_id = PInt 2\<rparr>)"
proof -
  let ?d1 = "[''data'' \<mapsto> PInt 5, ''_id'' \<mapsto> PInt 1]"
  let ?d2 = "[''data'' \<mapsto> PInt 5, ''_id'' \<mapsto> PInt 2]"
  let ?t0 = "\<lparr>name = ''t'', db = 0,
      queries_cache = [Where \<mapsto> [?d1]] :: int cache_key \<rightharpoonup> document list, last_id = PInt 1\<rparr>"
  let ?s0 = "Holds (Tables [''t'' \<mapsto> [?d1]])"
  let ?t1 = "\<lparr>name = ''t'', db = 0, queries_cache = Map.empty :: int cache_key \<rightharpoonup> document list,
      last_id = PInt 2\<rparr>"
  let ?s1 = "Holds (Tables [''t'' \<mapsto> [?d1, ?d2]])"
  let ?ev = "\<lambda>(c::int) (d::document). d ''data'' = Some (PInt c)"
  have h: "table_insert ?t0 ?s0 [''data'' \<mapsto> PInt 5] = Inr (?d2, ?t1, ?s1)"
    using table_insert_ok [of ?t0 ?s0 "[''t'' \<mapsto> [?d1]]" 1 "[''data'' \<mapsto> PInt 5]"]
    by (simp add: db_read_Holds docs_in_def)
  have a: "table_all ?t1 ?s1 = Docs [?d1, ?d2]"
    by (simp add: table_all_def table_read_def db_read_def not_table_def storage_read_def)
  from h have "table_purge ?t0 ?s0 = Inr (?t1, ?s1) \<or>
      (\<exists>d'. table_insert ?t0 ?s0 [''data'' \<mapsto> PInt 5] = Inr (d', ?t1, ?s1)) \<or>
      table_remove ?ev ?t0 ?s0 0 = Inr (?t1, ?s1)"
    by blast
  with mutation_clears_query_cache
         [where t = ?t0 and s = ?s0 and d = "[''data'' \<mapsto> PInt 5]" and ev = ?ev and cond = 0
            and t' = ?t1 and s' = ?s1]
  have "\<exists>docs. table_all ?t1 ?s1 = Docs docs \<and>
         (\<forall>c. table_search ?ev ?t1 ?s1 c =
                Inr (filter (?ev c) docs, ?t1\<lparr>queries_cache := [Where \<mapsto> filter (?ev c) docs]\<rparr>))"
    by blast
  with a have "table_search ?ev ?t1 ?s1 5 =
      Inr (filter (?ev 5) [?d1, ?d2], ?t1\<lparr>queries_cache := [Where \<mapsto> filter (?ev 5) [?d1, ?d2]]\<rparr>)"
    by auto
  then have "table_search ?ev ?t1 ?s1 5 = Inr ([?d1, ?d2], ?t1\<lparr>queries_cache := [Where \<mapsto> [?d1, ?d2]]\<rparr>)"
    by simp
  with h show ?thesis by simp
qed

section \<open>Removal\<close>

text \<open>
  C6, as amended: after \<open>remove(c)\<close> the stored list is the previous list without the
  documents equal to a document matched by \<open>c\<close>, where two documents are equal when they
  agree on every field, \<open>'_id'\<close> included. The documents removed are therefore exactly
  those that \<open>c\<close> matches; a document with the content of a matched one and another
  identifier stays unless \<open>c\<close> matches it too. (The cache never has an entry under a
  condition, see \<open>table_search_cond_keys\<close>.)
\<close>

theorem remove_equal_to_matched:
  "name t \<noteq> [] \<Longrightarrow> db_read s None = Tables m \<Longrightarrow> queries_cache t (Cond c) = None \<Longrightarrow>
     \<exists>docs t' s'. table_all t s = Docs docs \<and> table_remove ev t s c = Inr (t', s') \<and>
        table_all t' s' = Docs (filter (\<lambda>e. e \<notin> set (filter (ev c) docs)) docs) \<and>
        filter (\<lambda>e. e \<notin> set (filter (ev c) docs)) docs = filter (\<lambda>e. \<not> ev c e) docs"
proof -
  assume n: "name t \<noteq> []" and r: "db_read s None = Tables m" and c: "queries_cache t (Cond c) = None"
  let ?docs = "docs_in m (name t)"
  let ?rest = "filter (\<lambda>e. e \<notin> set (filter (ev c) ?docs)) ?docs"
  let ?t' = "t\<lparr>queries_cache := Map.empty\<rparr>"
  let ?s' = "Holds (Tables (m(name t \<mapsto> ?rest)))"
  have a: "table_all t s = Docs ?docs"
    using n r by (simp add: table_all_def table_read_ok)
  have b: "table_remove ev t s c = Inr (?t', ?s')"
    using n r c by (rule table_remove_ok)
  have "table_all ?t' ?s' = Docs (docs_in (m(name t \<mapsto> ?rest)) (name ?t'))"
    unfolding table_all_def using n by (intro table_read_ok) (simp_all add: db_read_Holds)
  then have d: "table_all ?t' ?s' = Docs ?rest"
    by (simp add: docs_in_upd)
  have e: "?rest = filter (\<lambda>e. \<not> ev c e) ?docs"
    by (rule filter_cong) auto
  from a b d e show ?thesis by blast
qed

theorem remove_equal_to_matched_witness:
  "\<exists>t' s'.
     table_remove (\<lambda>c d. d ''data'' = Some (PInt c))
       \<lparr>name = ''t'', db = 0, queries_cache = Map.empty :: int cache_key \<rightharpoonup> document list,
        last_id = PInt 2\<rparr>
       (Holds (Tables [''t'' \<mapsto> [[''data'' \<mapsto> PInt 5, ''_id'' \<mapsto> PInt 1],
                                    [''data'' \<mapsto> PInt 6, ''_id'' \<mapsto> PInt 2]]])) 5
     = Inr (t', s') \<and>
     table_all t' s' = Docs [[''data'' \<mapsto> PInt 6, ''_id'' \<mapsto> PInt 2]]"
proof -
  let ?d1 = "[''data'' \<mapsto> PInt 5, ''_id'' \<mapsto> PInt 1]"
  let ?d2 = "[''data'' \<mapsto> PInt 6, ''_id'' \<mapsto> PInt 2]"
  let ?t = "\<lparr>name = ''t'', db = 0, queries_cache = Map.empty :: int cache_key \<rightharpoonup> document list,
      last_id = PInt 2\<rparr>"
  let ?s = "Holds (Tables [''t'' \<mapsto> [?d1, ?d2]])"
  let ?ev = "\<lambda>(c::int) (d::document). d ''data'' = Some (PInt c)"
  have n: "name ?t \<noteq> []" by simp
  have r: "db_read ?s None = Tables [''t'' \<mapsto> [?d1, ?d2]]" by (rule db_read_Holds)
  have c: "queries_cache ?t (Cond 5) = None" by simp
  have a: "table_all ?t ?s = Docs [?d1, ?d2]"
    by (simp add: table_all_def table_read_def db_read_def not_table_def storage_read_def)
  from remove_equal_to_matched [OF n r c, of ?ev] a
  obtain t' s' where b: "table_remove ?ev ?t ?s 5 = Inr (t', s')"
    and d: "table_all t' s' = Docs (filter (\<lambda>e. \<not> ?ev 5 e) [?d1, ?d2])"
    by auto
  from d have "table_all t' s' = Docs [?d2]" by simp
  with b show ?thesis by blast
qed

text \<open>
  C6 as stated fails for a document with the content of a matched document and another
  identifier: a condition that matches the first of two such documents removes the
  first only.
\<close>

theorem remove_keeps_other_identifier:
  "table_remove (\<lambda>c d. d ''_id'' = Some (PInt c))
     \<lparr>name = ''t'', db = 0, queries_cache = Map.empty :: int cache_key \<rightharpoonup> document list,
      last_id = PInt 2\<rparr>
     (Holds (Tables [''t'' \<mapsto> [[''data'' \<mapsto> PInt 5, ''_id'' \<mapsto> PInt 1],
                                  [''data'' \<mapsto> PInt 5, ''_id'' \<mapsto> PInt 2]]])) 1
   = Inr (\<lparr>name = ''t'', db = 0, queries_cache = Map.empty, last_id = PInt 2\<rparr>,
          Holds (Tables [''t'' \<mapsto> [[''data'' \<mapsto> PInt 5, ''_id'' \<mapsto> PInt 2]]])) \<and>
   [''data'' \<mapsto> PInt 5, ''_id'' \<mapsto> PInt 2](''_id'' := None)
     = [''data'' \<mapsto> PInt 5, ''_id'' \<mapsto> PInt 1](''_id'' := None)"
proof -
  let ?d1 = "[''data'' \<mapsto> PInt 5, ''_id'' \<mapsto> PInt 1]"
  let ?d2 = "[''data'' \<mapsto> PInt 5, ''_id'' \<mapsto> PInt 2]"
  let ?t = "\<lparr>name = ''t'', db = 0, queries_cache = Map.empty :: int cache_key \<rightharpoonup> document list,
      last_id = PInt 2\<rparr>"
  let ?s = "Holds (Tables [''t'' \<mapsto> [?d1, ?d2]])"
  let ?ev = "\<lambda>(c::int) (d::document). d ''_id'' = Some (PInt c)"
  have ne: "?d2 \<noteq> ?d1"
  proof
    assume "?d2 = ?d1"
    then have "?d2 ''_id'' = ?d1 ''_id''" by (rule arg_cong)
    then show False by simp
  qed
  have n: "name ?t \<noteq> []" by simp
  have r: "db_read ?s None = Tables [''t'' \<mapsto> [?d1, ?d2]]" by (rule db_read_Holds)
  have c: "queries_cache ?t (Cond 1) = None" by simp
  have m: "filter (?ev 1) [?d1, ?d2] = [?d1]" by simp
  have "filter (\<lambda>e. e \<notin> set (filter (?ev 1) [?d1, ?d2])) [?d1, ?d2] = [?d2]"
    unfolding m using ne by simp
  with table_remove_ok [OF n r c, of ?ev]
  have "table_remove ?ev ?t ?s 1 = Inr (?t, Holds (Tables [''t'' \<mapsto> [?d2]]))"
    by (simp add: docs_in_def)
  then show ?thesis by simp
qed

section \<open>Identifiers of a fresh table\<close>

text \<open>
  C7: a table constructed over a backend that has no documents for its name (the backend
  cannot be decoded, or its mapping has no entry or the empty list for the name) gives
  the inserts of any sequence of inserts, removes, purges and searches the identifiers
  \<open>1, 2, 3, ...\<close> in turn, and no call of the sequence fails: the identifiers increase
  by one from 1, so none is repeated, whatever is removed in between.
\<close>

theorem fresh_table_identifiers:
  "n \<noteq> [] \<Longrightarrow> db_read s None = Tables m \<Longrightarrow> docs_in m n = [] \<Longrightarrow>
     \<exists>t0 t' s'. table_init n d s = Inr t0 \<and>
        run_ops ev t0 s ops =
          Inr (map (\<lambda>i. Some (PInt (int i))) [1..<Suc (count_inserts ops)], t', s')"
proof -
  assume n: "n \<noteq> []" and r: "db_read s None = Tables m" and e: "docs_in m n = []"
  let ?t0 = "\<lparr>name = n, db = d, queries_cache = Map.empty :: 'a cache_key \<rightharpoonup> document list,
              last_id = PInt 0\<rparr>"
  have i: "table_init n d s = Inr ?t0"
    using n r e by (rule table_init_empty)
  have "\<exists>t' s'. run_ops ev ?t0 s ops =
          Inr (map (\<lambda>i. Some (PInt (0 + int i))) [Suc 0..<Suc (count_inserts ops)], t', s')"
  proof (rule run_ops_ids)
    show "name ?t0 \<noteq> []" using n by simp
    show "db_read s None = Tables m" by (rule r)
    show "last_id ?t0 = PInt 0" by simp
    show "\<forall>c. queries_cache ?t0 (Cond c) = None" by simp
  qed
  with i show ?thesis by (simp del: upt_Suc)
qed

theorem fresh_table_identifiers_witness:
  "\<exists>t0 t' s'. table_init ''_default'' 0 Undecodable = Inr t0 \<and>
     run_ops (\<lambda>c d. d ''data'' = Some (PInt c)) t0 Undecodable
       [Insert [''data'' \<mapsto> PInt 5], Insert [''data'' \<mapsto> PInt 6], Remove (5::int),
        Insert [''data'' \<mapsto> PInt 5], Purge, Search 5, Insert [''data'' \<mapsto> PInt 7]]
     = Inr ([Some (PInt 1), Some (PInt 2), Some (PInt 3), Some (PInt 4)], t', s')"
proof -
  let ?ops = "[Insert [''data'' \<mapsto> PInt 5], Insert [''data'' \<mapsto> PInt 6], Remove (5::int),
        Insert [''data'' \<mapsto> PInt 5], Purge, Search 5, Insert [''data'' \<mapsto> PInt 7]]"
  have n: "''_default'' \<noteq> []" by simp
  have r: "db_read Undecodable None = Tables Map.empty" by (rule db_read_Undecodable)
  have e: "docs_in Map.empty ''_default'' = []" by (simp add: docs_in_def)
  have ids: "map (\<lambda>i. Some (PInt (int i))) [1..<Suc (count_inserts ?ops)]
               = [Some (PInt 1), Some (PInt 2), Some (PInt 3), Some (PInt 4)]"
    by (simp add: upt_conv_Cons)
  from fresh_table_identifiers [OF n r e, of 0 "\<lambda>c d. d ''data'' = Some (PInt c)" ?ops]
  show ?thesis unfolding ids .
qed

section \<open>The facade's read and write\<close>

text \<open>
  C8, as amended: for every table name but the empty string, \<open>_read(name)\<close> returns the
  table's document list, and the empty list when the name is absent from the mapping,
  when the backend holds no mapping, and when the backend cannot be decoded; \<open>_read()\<close>
  of a backend that cannot be decoded returns the empty mapping.
\<close>

theorem db_read_table:
  "n \<noteq> [] \<Longrightarrow>
     db_read (Holds (Tables m)) (Some n) = Docs (case m n of Some l \<Rightarrow> l | None \<Rightarrow> []) \<and>
     db_read (Holds (Docs l)) (Some n) = Docs [] \<and>
     db_read Undecodable (Some n) = Docs [] \<and>
     db_read Undecodable None = Tables Map.empty"
  by (simp add: db_read_def not_table_def storage_read_def split: option.split)

theorem db_read_table_witness:
  "''t'' \<noteq> [] \<and>
   db_read (Holds (Tables [''t'' \<mapsto> [[''a'' \<mapsto> PInt 1]]])) (Some ''t'') = Docs [[''a'' \<mapsto> PInt 1]] \<and>
   db_read (Holds (Tables [''t'' \<mapsto> [[''a'' \<mapsto> PInt 1]]])) (Some ''u'') = Docs [] \<and>
   db_read (Holds (Docs [[''a'' \<mapsto> PInt 1]])) (Some ''t'') = Docs [] \<and>
   db_read Undecodable (Some ''t'') = Docs [] \<and>
   db_read Undecodable None = Tables Map.empty"
  using db_read_table [of "''t''" "[''t'' \<mapsto> [[''a'' \<mapsto> PInt 1]]]" "[[''a'' \<mapsto> PInt 1]]"]
        db_read_table [of "''u''" "[''t'' \<mapsto> [[''a'' \<mapsto> PInt 1]]]" "[]"]
  by simp

text \<open>
  C8 as stated fails for the empty table name: \<open>not ''\<close> holds, so \<open>_read('')\<close> returns
  the whole mapping, not the list stored under \<open>''\<close>, and a mapping, not the empty
  list, when the backend cannot be decoded.
\<close>

theorem db_read_empty_name:
  "db_read (Holds (Tables ['''' \<mapsto> [[''a'' \<mapsto> PInt 1]]])) (Some '''')
     = Tables ['''' \<mapsto> [[''a'' \<mapsto> PInt 1]]] \<and>
   db_read (Holds (Tables ['''' \<mapsto> [[''a'' \<mapsto> PInt 1]]])) (Some '''')
     \<noteq> Docs [[''a'' \<mapsto> PInt 1]] \<and>
   db_read Undecodable (Some '''') \<noteq> Docs []"
  by (simp add: db_read_def not_table_def storage_read_def)

text \<open>
  C9, as amended: for every mapping \<open>m\<close> that \<open>_read()\<close> yields, every table name \<open>n\<close>
  but the empty string and every document list \<open>v\<close>, \<open>_write(v, n)\<close> succeeds, and the
  mapping read afterwards has \<open>v\<close> under \<open>n\<close> and the entry of \<open>m\<close> under every other
  name.
\<close>

theorem db_write_table:
  "n \<noteq> [] \<Longrightarrow> db_read s None = Tables m \<Longrightarrow>
     (\<exists>s' m'. db_write s v (Some n) = Inr s' \<and> db_read s' None = Tables m' \<and>
        m' n = Some v \<and> (\<forall>n'. n' \<noteq> n \<longrightarrow> m' n' = m n'))"
  by (simp add: db_write_def db_read_def not_table_def storage_read_def storage_write_def)

theorem db_write_table_witness:
  "\<exists>s' m'.
     db_write (Holds (Tables [''u'' \<mapsto> [[''a'' \<mapsto> PInt 1]]])) [[''b'' \<mapsto> PInt 2]] (Some ''t'') = Inr s' \<and>
     db_read s' None = Tables m' \<and>
     m' ''t'' = Some [[''b'' \<mapsto> PInt 2]] \<and>
     m' ''u'' = Some [[''a'' \<mapsto> PInt 1]]"
proof -
  let ?m = "[''u'' \<mapsto> [[''a'' \<mapsto> PInt 1]]] :: string \<rightharpoonup> document list"
  have n: "''t'' \<noteq> []" by simp
  have r: "db_read (Holds (Tables ?m)) None = Tables ?m"
    by (simp add: db_read_def not_table_def storage_read_def)
  from db_write_table [OF n r, of "[[''b'' \<mapsto> PInt 2]]"]
  obtain s' m' where w: "db_write (Holds (Tables ?m)) [[''b'' \<mapsto> PInt 2]] (Some ''t'') = Inr s'"
    and r': "db_read s' None = Tables m'" and t: "m' ''t'' = Some [[''b'' \<mapsto> PInt 2]]"
    and o: "\<forall>n'. n' \<noteq> ''t'' \<longrightarrow> m' n' = ?m n'"
    by blast
  from o have "m' ''u'' = ?m ''u''" by simp
  then have "m' ''u'' = Some [[''a'' \<mapsto> PInt 1]]" by simp
  with w r' t show ?thesis by blast
qed

text \<open>
  C9 as stated fails for the empty table name: \<open>_write(v, '')\<close> hands the list \<open>v\<close>
  itself to the backend, so the mapping is replaced by a list and the documents of the
  table \<open>t\<close> are gone.
\<close>

theorem db_write_empty_name:
  "db_read (Holds (Tables [''t'' \<mapsto> [[''a'' \<mapsto> PInt 1]]])) (Some ''t'') = Docs [[''a'' \<mapsto> PInt 1]] \<and>
   db_write (Holds (Tables [''t'' \<mapsto> [[''a'' \<mapsto> PInt 1]]])) [[''b'' \<mapsto> PInt 2]] (Some '''')
     = Inr (Holds (Docs [[''b'' \<mapsto> PInt 2]])) \<and>
   db_read (Holds (Docs [[''b'' \<mapsto> PInt 2]])) (Some ''t'') = Docs []"
  by (simp add: db_write_def db_read_def not_table_def storage_read_def storage_write_def)

section \<open>Insertion\<close>

text \<open>
  C10: \<open>insert\<close> changes the caller's document in place. After a successful call the
  element handed in is the element with \<open>'_id'\<close> set to the identifier just assigned
  (the counter after the call), and that same document is the last of the table's list.
\<close>

theorem insert_stamps_element:
  "table_insert t s element = Inr (element', t', s') \<Longrightarrow>
     \<exists>k docs. last_id t = PInt k \<and> last_id t' = PInt (k + 1) \<and>
       element' = element(''_id'' \<mapsto> PInt (k + 1)) \<and>
       table_all t' s' = Docs (docs @ [element'])"
proof -
  assume "table_insert t s element = Inr (element', t', s')"
  from table_insert_write [OF this] obtain k docs where k: "last_id t = PInt k"
    and e: "element' = element(''_id'' \<mapsto> PInt (k + 1))"
    and w: "table_write (t\<lparr>last_id := PInt (k + 1)\<rparr>) s (docs @ [element']) = Inr (t', s')"
    by blast
  from table_write_result [OF w] k e show ?thesis by simp
qed

theorem insert_stamps_element_witness:
  "table_insert \<lparr>name = ''_default'', db = 0, queries_cache = Map.empty :: nat cache_key \<rightharpoonup> document list,
                  last_id = PInt 0\<rparr> Undecodable [''data'' \<mapsto> PInt 5]
     = Inr ([''data'' \<mapsto> PInt 5, ''_id'' \<mapsto> PInt 1],
            \<lparr>name = ''_default'', db = 0, queries_cache = Map.empty, last_id = PInt 1\<rparr>,
            Holds (Tables [''_default'' \<mapsto> [[''data'' \<mapsto> PInt 5, ''_id'' \<mapsto> PInt 1]]])) \<and>
   (\<exists>k docs. PInt 0 = PInt k \<and> PInt 1 = PInt (k + 1) \<and>
      [''data'' \<mapsto> PInt 5, ''_id'' \<mapsto> PInt 1] = [''data'' \<mapsto> PInt 5](''_id'' \<mapsto> PInt (k + 1)) \<and>
      table_all \<lparr>name = ''_default'', db = 0, queries_cache = Map.empty :: nat cache_key \<rightharpoonup> document list,
                 last_id = PInt 1\<rparr>
        (Holds (Tables [''_default'' \<mapsto> [[''data'' \<mapsto> PInt 5, ''_id'' \<mapsto> PInt 1]]]))
        = Docs (docs @ [[''data'' \<mapsto> PInt 5, ''_id'' \<mapsto> PInt 1]]))"
proof -
  let ?t = "\<lparr>name = ''_default'', db = 0, queries_cache = Map.empty :: nat cache_key \<rightharpoonup> document list,
             last_id = PInt 0\<rparr>"
  have h: "table_insert ?t Undecodable [''data'' \<mapsto> PInt 5]
     = Inr ([''data'' \<mapsto> PInt 5, ''_id'' \<mapsto> PInt 1],
            \<lparr>name = ''_default'', db = 0, queries_cache = Map.empty, last_id = PInt 1\<rparr>,
            Holds (Tables [''_default'' \<mapsto> [[''data'' \<mapsto> PInt 5, ''_id'' \<mapsto> PInt 1]]]))"
    using table_insert_ok [of ?t Undecodable Map.empty 0 "[''data'' \<mapsto> PInt 5]"]
    by (simp add: db_read_Undecodable docs_in_def)
  from insert_stamps_element [OF h] h show ?thesis by simp
qed

text \<open>
  C3: the source has no check for the reserved field. \<open>insert\<close> of the document
  \<open>{data: 5, _id: 7}\<close> into a fresh table succeeds: the identifier 1 is assigned, the
  caller's \<open>'_id'\<close> is overwritten with it, and the document is written to the backend.
\<close>

theorem insert_accepts_reserved_field:
  "table_insert
     \<lparr>name = ''_default'', db = 0, queries_cache = Map.empty :: int cache_key \<rightharpoonup> document list,
      last_id = PInt 0\<rparr>
     Undecodable [''data'' \<mapsto> PInt 5, ''_id'' \<mapsto> PInt 7]
   = Inr ([''data'' \<mapsto> PInt 5, ''_id'' \<mapsto> PInt 1],
          \<lparr>name = ''_default'', db = 0, queries_cache = Map.empty, last_id = PInt 1\<rparr>,
          Holds (Tables [''_default'' \<mapsto> [[''data'' \<mapsto> PInt 5, ''_id'' \<mapsto> PInt 1]]]))"
  by (simp add: Let_def table_insert_def table_write_def clear_query_cache_def table_read_def
        db_write_def db_read_def not_table_def storage_read_def storage_write_def)

end
